theory Spec2Isabelle
  imports Main
begin

section \<open>JavaScript strings\<close>

text \<open>
  A JavaScript string is modelled by the list of its UTF-8 bytes (\<^typ>\<open>string\<close>); \<open>null\<close> and
  \<open>undefined\<close> are the value \<^const>\<open>None\<close> of an option type.

  \<open>String.prototype.toLowerCase\<close> is a function of the platform, not of the repository. It
  works on code points, so the bytes are decoded, lower-cased and encoded again. The model
  follows the Unicode case mappings on Basic Latin, Latin-1 Supplement, the Greek letters
  Alpha to Omega and the Kelvin sign, with the \<open>Final_Sigma\<close> rule of \<open>SpecialCasing\<close>: a
  capital sigma becomes the final small sigma when a cased letter comes before it, with
  only case-ignorable characters in between, and no cased letter comes after it in the
  same way. Code points outside these ranges are kept as they are; a property that is to
  hold for arbitrary text therefore takes the lower-casing function as a parameter.
\<close>

definition isContinuation :: "char \<Rightarrow> bool" where
  "isContinuation c = (128 \<le> (of_char c :: int) \<and> (of_char c :: int) < 192)"

text \<open>The bytes of each code point: a leading byte with the continuation bytes after it.\<close>

fun units :: "string \<Rightarrow> string list" where
  "units [] = []"
| "units (c # cs) =
     (case units cs of
        [] \<Rightarrow> [[c]]
      | [] # us \<Rightarrow> [c] # us
      | (d # ds) # us \<Rightarrow>
          if isContinuation d then (c # d # ds) # us else [c] # (d # ds) # us)"

fun codePoint :: "string \<Rightarrow> int" where
  "codePoint [a] = of_char a"
| "codePoint [a, b] = (of_char a - 192) * 64 + (of_char b - 128)"
| "codePoint [a, b, c] = (of_char a - 224) * 4096 + (of_char b - 128) * 64 + (of_char c - 128)"
| "codePoint [a, b, c, d] =
     (of_char a - 240) * 262144 + (of_char b - 128) * 4096 + (of_char c - 128) * 64
       + (of_char d - 128)"
| "codePoint _ = 65533"

definition decode :: "string \<Rightarrow> int list" where
  "decode s = map codePoint (units s)"

definition encodeCodePoint :: "int \<Rightarrow> string" where
  "encodeCodePoint n =
     (if n < 128 then [char_of n]
      else if n < 2048 then [char_of (192 + n div 64), char_of (128 + n mod 64)]
      else if n < 65536 then
        [char_of (224 + n div 4096), char_of (128 + n div 64 mod 64), char_of (128 + n mod 64)]
      else
        [char_of (240 + n div 262144), char_of (128 + n div 4096 mod 64),
         char_of (128 + n div 64 mod 64), char_of (128 + n mod 64)])"

definition encode :: "int list \<Rightarrow> string" where
  "encode ns = concat (map encodeCodePoint ns)"

text \<open>The Unicode properties \<open>Cased\<close> and \<open>Case_Ignorable\<close> and the lower-case mapping, on
  the modelled ranges.\<close>

definition cased :: "int \<Rightarrow> bool" where
  "cased n =
     ((65 \<le> n \<and> n \<le> 90) \<or> (97 \<le> n \<and> n \<le> 122)
      \<or> n = 170 \<or> n = 181 \<or> n = 186
      \<or> (192 \<le> n \<and> n \<le> 255 \<and> n \<noteq> 215 \<and> n \<noteq> 247)
      \<or> (913 \<le> n \<and> n \<le> 937 \<and> n \<noteq> 930) \<or> (945 \<le> n \<and> n \<le> 969)
      \<or> n = 8490)"

definition caseIgnorable :: "int \<Rightarrow> bool" where
  "caseIgnorable n =
     (n = 39 \<or> n = 46 \<or> n = 58 \<or> n = 94 \<or> n = 96
      \<or> n = 168 \<or> n = 173 \<or> n = 175 \<or> n = 180 \<or> n = 183 \<or> n = 184)"

definition lowerCodePoint :: "int \<Rightarrow> int" where
  "lowerCodePoint n =
     (if 65 \<le> n \<and> n \<le> 90 then n + 32
      else if 192 \<le> n \<and> n \<le> 222 \<and> n \<noteq> 215 then n + 32
      else if 913 \<le> n \<and> n \<le> 937 \<and> n \<noteq> 930 then n + 32
      else if n = 8490 then 107
      else n)"

fun followedByCased :: "int list \<Rightarrow> bool" where
  "followedByCased [] = False"
| "followedByCased (n # ns) = (if caseIgnorable n then followedByCased ns else cased n)"

text \<open>\<open>lowerAll after ns\<close>: \<open>after\<close> tells whether a cased letter, followed by case-ignorable
  characters only, comes before \<open>ns\<close>. The code point 931 is the capital sigma, 962 the
  final small sigma and 963 the small sigma.\<close>

fun lowerAll :: "bool \<Rightarrow> int list \<Rightarrow> int list" where
  "lowerAll after [] = []"
| "lowerAll after (n # ns) =
     (if n = 931 then (if after \<and> \<not> followedByCased ns then 962 else 963)
      else lowerCodePoint n)
     # lowerAll (if caseIgnorable n then after else cased n) ns"

definition toLowerCase :: "string \<Rightarrow> string" where
  "toLowerCase s = encode (lowerAll False (decode s))"

text \<open>Text of ASCII characters, the lower-casing of one ASCII character, and two characters
  that are equal up to the case of an ASCII letter.\<close>

definition ascii :: "string \<Rightarrow> bool" where
  "ascii s = list_all (\<lambda>c. (of_char c :: int) < 128) s"

definition toLowerChar :: "char \<Rightarrow> char" where
  "toLowerChar c =
     (let n = (of_char c :: int) in if 65 \<le> n \<and> n \<le> 90 then char_of (n + 32) else c)"

definition same_letter :: "char \<Rightarrow> char \<Rightarrow> bool" where
  "same_letter c d =
     (c = d
      \<or> (65 \<le> (of_char c :: int) \<and> (of_char c :: int) \<le> 90 \<and> (of_char d :: int) = of_char c + 32)
      \<or> (65 \<le> (of_char d :: int) \<and> (of_char d :: int) \<le> 90 \<and> (of_char c :: int) = of_char d + 32))"

text \<open>\<open>s.startsWith(q)\<close> and \<open>s.includes(q)\<close>: the scan over the start positions of \<open>s\<close>.\<close>

fun startsWith :: "string \<Rightarrow> string \<Rightarrow> bool" where
  "startsWith s [] = True"
| "startsWith [] (q # qs) = False"
| "startsWith (c # cs) (q # qs) = (c = q \<and> startsWith cs qs)"

fun includes_str :: "string \<Rightarrow> string \<Rightarrow> bool" where
  "includes_str [] q = startsWith [] q"
| "includes_str (c # cs) q = (startsWith (c # cs) q \<or> includes_str cs q)"

text \<open>JavaScript truthiness of a value that is a string, \<open>null\<close> or \<open>undefined\<close>.\<close>

fun truthy :: "string option \<Rightarrow> bool" where
  "truthy None = False"
| "truthy (Some s) = (s \<noteq> [])"

section \<open>Role-based dashboard dispatch (App.jsx)\<close>

record user =
  name :: string
  role :: "string option"

text \<open>The React elements the router can produce for \<open>/dashboard\<close>; each dashboard receives
  the \<open>user\<close> prop it was given.\<close>

datatype element =
    CRPDashboard "user option"
  | DIETDashboard "user option"
  | TeacherDashboard "user option"
  | DashboardLayout "user option" element
  | Navigate string

text \<open>\<open>const role = user?.role?.toLowerCase()\<close>: \<open>undefined\<close> when the user or its role is
  missing.\<close>

definition role_of :: "user option \<Rightarrow> string option" where
  "role_of u = (case u of None \<Rightarrow> None
                | Some usr \<Rightarrow> (case role usr of None \<Rightarrow> None | Some r \<Rightarrow> Some (toLowerCase r)))"

definition SmartDashboard :: "user option \<Rightarrow> element" where
  "SmartDashboard u =
     (case role_of u of
        None \<Rightarrow> TeacherDashboard u
      | Some r \<Rightarrow>
          if r = ''crp'' then CRPDashboard u
          else if r = ''diet'' then DIETDashboard u
          else TeacherDashboard u)"

text \<open>The element of the route \<open>/dashboard\<close>.\<close>

definition dashboard_route :: "bool \<Rightarrow> user option \<Rightarrow> element" where
  "dashboard_route isAuthenticated u =
     (if isAuthenticated then DashboardLayout u (SmartDashboard u) else Navigate ''/login'')"

section \<open>API client (api/client.js): interceptors\<close>

type_synonym storage = "string \<rightharpoonup> string"

definition getItem :: "storage \<Rightarrow> string \<Rightarrow> string option" where
  "getItem s k = s k"

definition removeItem :: "storage \<Rightarrow> string \<Rightarrow> storage" where
  "removeItem s k = s(k := None)"

text \<open>The part of the browser the client touches: local storage and \<open>window.location.href\<close>.\<close>

record browser =
  localStorage :: storage
  location_href :: string

record config =
  url :: string
  http_method :: string
  headers :: "string \<rightharpoonup> string"
  params :: "(string \<times> string) list"
  data :: "string option"

record http_response =
  status :: int
  body :: string

record axios_error =
  message :: string
  response :: "http_response option"

datatype ('a, 'e) promise = Fulfilled 'a | Rejected 'e

text \<open>Request interceptor: reads the token and, when it is truthy (\<open>getItem\<close> gave a
  string, not \<open>null\<close>, and the string is not empty), sets \<open>config.headers.Authorization\<close>.\<close>

definition request_fulfilled :: "browser \<Rightarrow> config \<Rightarrow> config" where
  "request_fulfilled b cfg =
     (case getItem (localStorage b) ''token'' of
        None \<Rightarrow> cfg
      | Some token \<Rightarrow>
          if token \<noteq> []
          then cfg\<lparr>headers := (headers cfg)(''Authorization'' \<mapsto> ''Bearer '' @ token)\<rparr>
          else cfg)"

definition request_rejected :: "'e \<Rightarrow> (config, 'e) promise" where
  "request_rejected e = Rejected e"

text \<open>Response interceptor: the success handler returns the response; the error handler
  clears the session on status 401 and rejects with the same error.\<close>

definition response_fulfilled ::
  "browser \<Rightarrow> http_response \<Rightarrow> browser \<times> (http_response, axios_error) promise" where
  "response_fulfilled b r = (b, Fulfilled r)"

definition response_rejected ::
  "browser \<Rightarrow> axios_error \<Rightarrow> browser \<times> (http_response, axios_error) promise" where
  "response_rejected b e =
     (let b' = (if map_option status (response e) = Some 401
                then b\<lparr>localStorage := removeItem (removeItem (localStorage b) ''token'') ''user'',
                       location_href := ''/login''\<rparr>
                else b)
      in (b', Rejected e))"

section \<open>API client (api/client.js): quick SOS\<close>

text \<open>
  \<open>URLSearchParams\<close> is the list of its name/value pairs; \<open>append\<close> adds a pair at the end
  and \<open>toString\<close> is the \<open>application/x-www-form-urlencoded\<close> serialiser of the URL
  Standard: a space becomes \<open>+\<close>, the ASCII letters and digits and \<open>*\<close>, \<open>-\<close>, \<open>.\<close>, \<open>_\<close>
  are kept, and every other byte is written as \<open>%\<close> and two upper-case hexadecimal digits;
  the pairs are written \<open>name=value\<close> and joined by \<open>&\<close>.
\<close>

type_synonym URLSearchParams = "(string \<times> string) list"

definition append_param :: "URLSearchParams \<Rightarrow> string \<Rightarrow> string \<Rightarrow> URLSearchParams" where
  "append_param ps k v = ps @ [(k, v)]"

definition hexDigit :: "nat \<Rightarrow> char" where
  "hexDigit n = ''0123456789ABCDEF'' ! n"

definition percentEncode :: "char \<Rightarrow> string" where
  "percentEncode c = (let n = (of_char c :: nat) in [CHR ''%'', hexDigit (n div 16), hexDigit (n mod 16)])"

definition unreserved :: "char \<Rightarrow> bool" where
  "unreserved c =
     (let n = (of_char c :: nat) in
      (48 \<le> n \<and> n \<le> 57) \<or> (65 \<le> n \<and> n \<le> 90) \<or> (97 \<le> n \<and> n \<le> 122)
      \<or> n = 42 \<or> n = 45 \<or> n = 46 \<or> n = 95)"

definition urlencodeByte :: "char \<Rightarrow> string" where
  "urlencodeByte c =
     (if c = CHR '' '' then ''+'' else if unreserved c then [c] else percentEncode c)"

definition urlencode :: "string \<Rightarrow> string" where
  "urlencode s = concat (map urlencodeByte s)"

fun join :: "string \<Rightarrow> string list \<Rightarrow> string" where
  "join sep [] = []"
| "join sep [x] = x"
| "join sep (x # y # ys) = x @ sep @ join sep (y # ys)"

definition enc_pair :: "string \<times> string \<Rightarrow> string" where
  "enc_pair p = urlencode (fst p) @ ''='' @ urlencode (snd p)"

definition toString :: "URLSearchParams \<Rightarrow> string" where
  "toString ps = join ''&'' (map enc_pair ps)"

text \<open>\<open>sosAPI.quick(rawInput, subject = null, grade = null)\<close>: the parameters it builds and
  the URL it posts to.\<close>

definition quick_params :: "string \<Rightarrow> string option \<Rightarrow> string option \<Rightarrow> URLSearchParams" where
  "quick_params rawInput subject grade =
     (let params = [(''raw_input'', rawInput)];
          params = (case subject of
                      None \<Rightarrow> params
                    | Some s \<Rightarrow> if truthy subject then append_param params ''subject'' s else params);
          params = (case grade of
                      None \<Rightarrow> params
                    | Some g \<Rightarrow> if truthy grade then append_param params ''grade'' g else params)
      in params)"

definition quick_url :: "string \<Rightarrow> string option \<Rightarrow> string option \<Rightarrow> string" where
  "quick_url rawInput subject grade = ''/sos/quick?'' @ toString (quick_params rawInput subject grade)"

text \<open>Reading a query string back: the pairs between the \<open>&\<close>, each cut at its first \<open>=\<close>.\<close>

fun split_on :: "char \<Rightarrow> string \<Rightarrow> string list" where
  "split_on d [] = [[]]"
| "split_on d (c # cs) =
     (if c = d then [] # split_on d cs
      else (case split_on d cs of [] \<Rightarrow> [[c]] | w # ws \<Rightarrow> (c # w) # ws))"

definition cut_pair :: "string \<Rightarrow> string \<times> string" where
  "cut_pair p =
     (takeWhile (\<lambda>c. c \<noteq> CHR ''='') p, drop 1 (dropWhile (\<lambda>c. c \<noteq> CHR ''='') p))"

definition query_pairs :: "string \<Rightarrow> (string \<times> string) list" where
  "query_pairs qs = map cut_pair (split_on (CHR ''&'') qs)"

section \<open>API client (api/client.js): dashboards\<close>

text \<open>\<open>dashboardAPI\<close>: the call each function hands to \<open>api.get\<close>. The \<open>days\<close> argument
  is a JavaScript value; the default \<open>days = 7\<close> replaces \<open>undefined\<close> only, so \<open>null\<close> is
  passed on as it is.\<close>

datatype jsnumber = Undefined | Null | Number int

record api_call =
  call_method :: string
  call_url :: string
  call_params :: "(string \<times> jsnumber) list"
  call_body :: "string option"

definition getTeacher :: api_call where
  "getTeacher =
     \<lparr>call_method = ''get'', call_url = ''/dashboard/teacher'', call_params = [], call_body = None\<rparr>"

definition getCRP :: "jsnumber \<Rightarrow> api_call" where
  "getCRP days =
     (let days = (case days of Undefined \<Rightarrow> Number 7 | Null \<Rightarrow> Null | Number d \<Rightarrow> Number d) in
      \<lparr>call_method = ''get'', call_url = ''/dashboard/crp'', call_params = [(''days'', days)],
       call_body = None\<rparr>)"

definition getDIET :: "jsnumber \<Rightarrow> api_call" where
  "getDIET days =
     (let days = (case days of Undefined \<Rightarrow> Number 7 | Null \<Rightarrow> Null | Number d \<Rightarrow> Number d) in
      \<lparr>call_method = ''get'', call_url = ''/dashboard/diet'', call_params = [(''days'', days)],
       call_body = None\<rparr>)"

definition getOverview :: api_call where
  "getOverview =
     \<lparr>call_method = ''get'', call_url = ''/dashboard/overview'', call_params = [], call_body = None\<rparr>"

section \<open>History page (History.jsx): filtering\<close>

record sos =
  sos_id :: string
  raw_input :: string
  subject :: "string option"
  sos_status :: string

definition matchesFilter :: "string \<Rightarrow> sos \<Rightarrow> bool" where
  "matchesFilter flt s = (flt = ''all'' \<or> sos_status s = flt)"

text \<open>The filter of the page. \<open>lower\<close> stands for \<open>String.prototype.toLowerCase\<close>;
  \<open>sos.subject?.toLowerCase().includes(...)\<close> is \<open>undefined\<close>, hence false, when the subject
  is missing.\<close>

definition matchesSearch :: "(string \<Rightarrow> string) \<Rightarrow> string \<Rightarrow> sos \<Rightarrow> bool" where
  "matchesSearch lower searchQuery s =
     (includes_str (lower (raw_input s)) (lower searchQuery)
      \<or> (case subject s of
            None \<Rightarrow> False
          | Some subj \<Rightarrow> includes_str (lower subj) (lower searchQuery)))"

definition filteredRequests ::
  "(string \<Rightarrow> string) \<Rightarrow> sos list \<Rightarrow> string \<Rightarrow> string \<Rightarrow> sos list" where
  "filteredRequests lower sosRequests flt searchQuery =
     filter (\<lambda>s. matchesFilter flt s \<and> matchesSearch lower searchQuery s) sosRequests"

text \<open>\<open>getStatusIcon\<close>: a switch on the status string whose default branch serves
  \<open>pending\<close> and every unknown status.\<close>

datatype icon = CheckCircle | XCircle | Clock | AlertCircle

definition getStatusIcon :: "string \<Rightarrow> icon" where
  "getStatusIcon st =
     (if st = ''resolved'' then CheckCircle
      else if st = ''failed'' then XCircle
      else if st = ''processing'' then Clock
      else AlertCircle)"

section \<open>Request records and their status (backend, modelled from the spec)\<close>

text \<open>
  Modelled from the spec: the Request document model and the handlers that move its status
  (backend \<open>app/db/models\<close> and \<open>app/api/v1/sos.py\<close>, which are not among the sources).
  The spec gives a Request an id, an author, the raw text, a detected subject and grade, a
  status and a timestamp, and the status progression pending, then processing, then
  resolved or failed, with no automatic retry and no mutation after resolution.
\<close>

datatype request_status = Pending | Processing | Resolved | Failed

record request =
  req_id :: nat
  author :: nat
  raw_text :: string
  detected_subject :: "string option"
  detected_grade :: "string option"
  req_status :: request_status
  created_day :: nat
  playbook_ref :: "nat option"

text \<open>Modelled from the spec: the status progression.\<close>

fun transition :: "request_status \<Rightarrow> request_status \<Rightarrow> bool" where
  "transition Pending Processing = True"
| "transition Processing Resolved = True"
| "transition Processing Failed = True"
| "transition _ _ = False"

text \<open>Modelled from the spec: the events that reach a Request after its creation. An event
  that the current status does not admit leaves the record as it is.\<close>

datatype request_event = StartProcessing | AttachPlaybook nat | MarkFailed

fun step :: "request \<Rightarrow> request_event \<Rightarrow> request" where
  "step r StartProcessing =
     (if req_status r = Pending then r\<lparr>req_status := Processing\<rparr> else r)"
| "step r (AttachPlaybook p) =
     (if req_status r = Processing then r\<lparr>req_status := Resolved, playbook_ref := Some p\<rparr> else r)"
| "step r MarkFailed =
     (if req_status r = Processing then r\<lparr>req_status := Failed\<rparr> else r)"

definition steps :: "request \<Rightarrow> request_event list \<Rightarrow> request" where
  "steps r es = foldl step r es"

text \<open>The name under which the API reports a status, as the History page reads it.\<close>

fun status_name :: "request_status \<Rightarrow> string" where
  "status_name Pending = ''pending''"
| "status_name Processing = ''processing''"
| "status_name Resolved = ''resolved''"
| "status_name Failed = ''failed''"

section \<open>Dashboard aggregation (backend, modelled from the spec)\<close>

text \<open>
  Modelled from the spec: the dashboard endpoints \<open>GET /dashboard/{role}\<close> (backend
  \<open>app/api/v1/dashboard.py\<close>, not among the sources; the client only calls them). Their
  input is a time window in days and a role scope, their output the total, the per-subject
  counts and the per-day activity of the Request records in scope, computed by grouping and
  counting; the store is read and handed back. Which records a role sees is not in the
  spec, so the role scope is the predicate \<open>in_scope\<close>.
\<close>

definition in_window :: "nat \<Rightarrow> nat \<Rightarrow> request \<Rightarrow> bool" where
  "in_window now days r = (created_day r \<le> now \<and> now < created_day r + days)"

text \<open>Grouping and counting: one counter per key, incremented for each record.\<close>

fun bump :: "'k \<Rightarrow> ('k \<times> nat) list \<Rightarrow> ('k \<times> nat) list" where
  "bump k [] = [(k, 1)]"
| "bump k ((k', n) # rest) = (if k = k' then (k', Suc n) # rest else (k', n) # bump k rest)"

definition group_count :: "('a \<Rightarrow> 'k) \<Rightarrow> 'a list \<Rightarrow> ('k \<times> nat) list" where
  "group_count key xs = fold (\<lambda>x acc. bump (key x) acc) xs []"

definition count_of :: "('k \<times> nat) list \<Rightarrow> 'k \<Rightarrow> nat" where
  "count_of groups k = (case map_of groups k of None \<Rightarrow> 0 | Some n \<Rightarrow> n)"

record summary =
  total :: nat
  by_subject :: "(string option \<times> nat) list"
  by_day :: "(nat \<times> nat) list"

definition dashboard ::
  "(request \<Rightarrow> bool) \<Rightarrow> nat \<Rightarrow> nat \<Rightarrow> request list \<Rightarrow> request list \<times> summary" where
  "dashboard in_scope days now db =
     (let selected = filter (\<lambda>r. in_scope r \<and> in_window now days r) db in
      (db, \<lparr>total = fold (\<lambda>r n. Suc n) selected 0,
            by_subject = group_count detected_subject selected,
            by_day = group_count created_day selected\<rparr>))"

section \<open>Shared solutions and votes (backend, modelled from the spec)\<close>

text \<open>
  Modelled from the spec: the knowledge library behind \<open>POST /knowledge/share\<close> and
  \<open>POST /knowledge/library/{id}/vote\<close> (backend code that is not among the sources). A
  SharedSolution has an author, a content, a vote tally and a trust score; it is created on
  share and mutated by votes, each vote being one atomic increment of the tally. The library
  is the list of the solutions, a solution's id its position. Concurrent clients are
  modelled by the interleavings of their atomic operations.
\<close>

record shared_solution =
  sol_author :: nat
  content :: string
  votes :: nat
  trust_score :: nat

datatype library_error = NotFound

definition share :: "nat \<Rightarrow> string \<Rightarrow> shared_solution list \<Rightarrow> shared_solution list" where
  "share a c lib = lib @ [\<lparr>sol_author = a, content = c, votes = 0, trust_score = 0\<rparr>]"

definition vote :: "nat \<Rightarrow> shared_solution list \<Rightarrow> library_error + shared_solution list" where
  "vote i lib =
     (if i < length lib then Inr (lib[i := (lib ! i)\<lparr>votes := Suc (votes (lib ! i))\<rparr>])
      else Inl NotFound)"

datatype library_op = Share nat string | Vote nat

text \<open>A vote for an unknown id is answered by an error and changes nothing.\<close>

fun apply_op :: "library_op \<Rightarrow> shared_solution list \<Rightarrow> shared_solution list" where
  "apply_op (Share a c) lib = share a c lib"
| "apply_op (Vote i) lib = (case vote i lib of Inl e \<Rightarrow> lib | Inr lib' \<Rightarrow> lib')"

definition run_ops :: "library_op list \<Rightarrow> shared_solution list \<Rightarrow> shared_solution list" where
  "run_ops ops lib = fold apply_op ops lib"

fun interleavings :: "'a list \<Rightarrow> 'a list \<Rightarrow> 'a list list" where
  "interleavings [] ys = [ys]"
| "interleavings xs [] = [xs]"
| "interleavings (x # xs) (y # ys) =
     map ((#) x) (interleavings xs (y # ys)) @ map ((#) y) (interleavings (x # xs) ys)"

section \<open>AI gateway adapter (backend, modelled from the spec)\<close>

text \<open>
  Modelled from the spec: the AI gateway adapter (backend \<open>app/services/gemini_service.py\<close>,
  not among the sources). It sends one prompt to the external model and parses the answer
  into a playbook; when the call fails with a network or timeout error it returns a static
  fallback playbook. The external model is the function \<open>model\<close>, giving the outcome of the
  \<open>n\<close>-th call; the parser and the fallback playbook are parameters. The number of calls made
  so far is threaded through, so that a retry would show.
\<close>

datatype model_outcome = ModelResponse string | NetworkError | Timeout

record playbook =
  title :: string
  summary :: string
  immediate_actions :: "string list"
  recovery_steps :: "string list"
  alternatives :: "string list"
  tips :: "string list"

datatype gateway_error = UpstreamFailure

definition call_model :: "(nat \<Rightarrow> string \<Rightarrow> model_outcome) \<Rightarrow> string \<Rightarrow> nat \<Rightarrow> model_outcome \<times> nat" where
  "call_model model prompt n = (model n prompt, Suc n)"

definition generate_playbook ::
  "(nat \<Rightarrow> string \<Rightarrow> model_outcome) \<Rightarrow> (string \<Rightarrow> playbook) \<Rightarrow> playbook \<Rightarrow> string \<Rightarrow> nat
     \<Rightarrow> (gateway_error + playbook) \<times> nat" where
  "generate_playbook model parse fallback prompt n =
     (case call_model model prompt n of
        (ModelResponse txt, n') \<Rightarrow> (Inr (parse txt), n')
      | (NetworkError, n') \<Rightarrow> (Inr fallback, n')
      | (Timeout, n') \<Rightarrow> (Inr fallback, n'))"

text \<open>Modelled from the spec: what an SOS submission answers to the user, as the client
  reads it (\<open>success\<close>, \<open>playbook\<close>, \<open>error\<close>).\<close>

record sos_response =
  success :: bool
  response_playbook :: "playbook option"
  error_message :: "string option"

definition submit_sos ::
  "(nat \<Rightarrow> string \<Rightarrow> model_outcome) \<Rightarrow> (string \<Rightarrow> playbook) \<Rightarrow> playbook \<Rightarrow> string \<Rightarrow> nat
     \<Rightarrow> sos_response \<times> nat" where
  "submit_sos model parse fallback prompt n =
     (case generate_playbook model parse fallback prompt n of
        (Inr pb, n') \<Rightarrow> (\<lparr>success = True, response_playbook = Some pb, error_message = None\<rparr>, n')
      | (Inl e, n') \<Rightarrow>
          (\<lparr>success = False, response_playbook = None,
            error_message = Some ''Failed to generate playbook''\<rparr>, n'))"

section \<open>Evaluation of the string functions\<close>

lemma toLowerCase_CRP: "toLowerCase ''CRP'' = ''crp''"
  by code_simp

lemma toLowerCase_Diet: "toLowerCase ''Diet'' = ''diet''"
  by code_simp

lemma toLowerCase_teacher: "toLowerCase ''teacher'' = ''teacher''"
  by code_simp

lemma toLowerCase_Admin: "toLowerCase ''Admin'' = ''admin''"
  by code_simp

text \<open>Outside ASCII: a word that starts with a capital E with acute accent, the Kelvin sign
  (which becomes the letter k), and a capital sigma at the end of a word and inside one.\<close>

lemma toLowerCase_beyond_ascii:
  "toLowerCase [CHR 0xC3, CHR 0x89, CHR 0x63, CHR 0x6F, CHR 0x6C, CHR 0x65]
     = [CHR 0xC3, CHR 0xA9, CHR 0x63, CHR 0x6F, CHR 0x6C, CHR 0x65]"
  "toLowerCase [CHR 0xE2, CHR 0x84, CHR 0xAA]
     = [CHR 0x6B]"
  "toLowerCase [CHR 0xCE, CHR 0x9A, CHR 0xCE, CHR 0x9B, CHR 0xCE, CHR 0x91, CHR 0xCE, CHR 0xA3]
     = [CHR 0xCE, CHR 0xBA, CHR 0xCE, CHR 0xBB, CHR 0xCE, CHR 0xB1, CHR 0xCF, CHR 0x82]"
  "toLowerCase [CHR 0xCE, CHR 0x9A, CHR 0xCE, CHR 0x9B, CHR 0xCE, CHR 0x91, CHR 0xCE, CHR 0xA3, CHR 0xCE, CHR 0x9C, CHR 0xCE, CHR 0x91, CHR 0xCE, CHR 0xA4, CHR 0xCE, CHR 0x91]
     = [CHR 0xCE, CHR 0xBA, CHR 0xCE, CHR 0xBB, CHR 0xCE, CHR 0xB1, CHR 0xCF, CHR 0x83, CHR 0xCE, CHR 0xBC, CHR 0xCE, CHR 0xB1, CHR 0xCF, CHR 0x84, CHR 0xCE, CHR 0xB1]"
  by code_simp+

section \<open>Dashboard dispatch\<close>

lemma SmartDashboard_Some:
  "role usr = Some r \<Longrightarrow>
     SmartDashboard (Some usr) =
       (if toLowerCase r = ''crp'' then CRPDashboard (Some usr)
        else if toLowerCase r = ''diet'' then DIETDashboard (Some usr)
        else TeacherDashboard (Some usr))"
  by (simp add: SmartDashboard_def role_of_def)

lemma SmartDashboard_no_role:
  "role usr = None \<Longrightarrow> SmartDashboard (Some usr) = TeacherDashboard (Some usr)"
  by (simp add: SmartDashboard_def role_of_def)

text \<open>
  Claim C1. For an authenticated user the element rendered at \<open>/dashboard\<close> is chosen by
  comparing the lowercased role string: \<open>crp\<close> gives the CRP dashboard, \<open>diet\<close> the DIET
  dashboard, and every other string (among them \<open>teacher\<close>) as well as a missing role gives
  the Teacher dashboard.
\<close>

theorem dashboard_route_role_dispatch:
  fixes usr :: user
  shows "(\<forall>r. role usr = Some r \<and> toLowerCase r = ''crp'' \<longrightarrow>
            dashboard_route True (Some usr) = DashboardLayout (Some usr) (CRPDashboard (Some usr)))
       \<and> (\<forall>r. role usr = Some r \<and> toLowerCase r = ''diet'' \<longrightarrow>
            dashboard_route True (Some usr) = DashboardLayout (Some usr) (DIETDashboard (Some usr)))
       \<and> (\<forall>r. role usr = Some r \<and> toLowerCase r \<noteq> ''crp'' \<and> toLowerCase r \<noteq> ''diet'' \<longrightarrow>
            dashboard_route True (Some usr) = DashboardLayout (Some usr) (TeacherDashboard (Some usr)))
       \<and> (role usr = None \<longrightarrow>
            dashboard_route True (Some usr) = DashboardLayout (Some usr) (TeacherDashboard (Some usr)))"
  by (simp add: dashboard_route_def SmartDashboard_Some SmartDashboard_no_role)

theorem dashboard_route_role_dispatch_witness:
  "dashboard_route True (Some \<lparr>name = ''Asha'', role = Some ''CRP''\<rparr>) =
     DashboardLayout (Some \<lparr>name = ''Asha'', role = Some ''CRP''\<rparr>)
       (CRPDashboard (Some \<lparr>name = ''Asha'', role = Some ''CRP''\<rparr>))
   \<and> dashboard_route True (Some \<lparr>name = ''Ravi'', role = Some ''Diet''\<rparr>) =
     DashboardLayout (Some \<lparr>name = ''Ravi'', role = Some ''Diet''\<rparr>)
       (DIETDashboard (Some \<lparr>name = ''Ravi'', role = Some ''Diet''\<rparr>))
   \<and> dashboard_route True (Some \<lparr>name = ''Meena'', role = Some ''teacher''\<rparr>) =
     DashboardLayout (Some \<lparr>name = ''Meena'', role = Some ''teacher''\<rparr>)
       (TeacherDashboard (Some \<lparr>name = ''Meena'', role = Some ''teacher''\<rparr>))
   \<and> dashboard_route True (Some \<lparr>name = ''Kiran'', role = Some ''Admin''\<rparr>) =
     DashboardLayout (Some \<lparr>name = ''Kiran'', role = Some ''Admin''\<rparr>)
       (TeacherDashboard (Some \<lparr>name = ''Kiran'', role = Some ''Admin''\<rparr>))
   \<and> dashboard_route True (Some \<lparr>name = ''Lata'', role = None\<rparr>) =
     DashboardLayout (Some \<lparr>name = ''Lata'', role = None\<rparr>)
       (TeacherDashboard (Some \<lparr>name = ''Lata'', role = None\<rparr>))"
  using dashboard_route_role_dispatch [of "\<lparr>name = ''Asha'', role = Some ''CRP''\<rparr>"]
        dashboard_route_role_dispatch [of "\<lparr>name = ''Ravi'', role = Some ''Diet''\<rparr>"]
        dashboard_route_role_dispatch [of "\<lparr>name = ''Meena'', role = Some ''teacher''\<rparr>"]
        dashboard_route_role_dispatch [of "\<lparr>name = ''Kiran'', role = Some ''Admin''\<rparr>"]
        dashboard_route_role_dispatch [of "\<lparr>name = ''Lata'', role = None\<rparr>"]
  by (simp add: toLowerCase_CRP toLowerCase_Diet toLowerCase_teacher toLowerCase_Admin)

section \<open>Response interceptor\<close>

text \<open>
  Claim C2. When the error handed to the response interceptor carries a response of status
  401, the entries \<open>token\<close> and \<open>user\<close> are removed from local storage (every other entry is
  kept), the browser is sent to \<open>/login\<close>, and the promise is rejected with the same error.
  For an error with another status, or with no response, and for a successful response, the
  browser state (storage and location) is returned unchanged.
\<close>

theorem response_interceptor_401:
  "(\<forall>r. response e = Some r \<and> status r = 401 \<longrightarrow>
      getItem (localStorage (fst (response_rejected b e))) ''token'' = None
      \<and> getItem (localStorage (fst (response_rejected b e))) ''user'' = None
      \<and> (\<forall>k. k \<noteq> ''token'' \<and> k \<noteq> ''user'' \<longrightarrow>
            getItem (localStorage (fst (response_rejected b e))) k = getItem (localStorage b) k)
      \<and> location_href (fst (response_rejected b e)) = ''/login''
      \<and> snd (response_rejected b e) = Rejected e)
   \<and> (response e = None \<or> (\<exists>r. response e = Some r \<and> status r \<noteq> 401) \<longrightarrow>
        response_rejected b e = (b, Rejected e))
   \<and> response_fulfilled b r' = (b, Fulfilled r')"
  by (auto simp: response_rejected_def response_fulfilled_def getItem_def removeItem_def)

theorem response_interceptor_401_witness:
  "getItem (localStorage (fst (response_rejected
      \<lparr>localStorage = [''token'' \<mapsto> ''abc'', ''user'' \<mapsto> ''{}'', ''lang'' \<mapsto> ''hi''],
       location_href = ''/history''\<rparr>
      \<lparr>message = ''Unauthorized'', response = Some \<lparr>status = 401, body = []\<rparr>\<rparr>))) ''token'' = None
   \<and> getItem (localStorage (fst (response_rejected
      \<lparr>localStorage = [''token'' \<mapsto> ''abc'', ''user'' \<mapsto> ''{}'', ''lang'' \<mapsto> ''hi''],
       location_href = ''/history''\<rparr>
      \<lparr>message = ''Unauthorized'', response = Some \<lparr>status = 401, body = []\<rparr>\<rparr>))) ''lang''
     = Some ''hi''
   \<and> location_href (fst (response_rejected
      \<lparr>localStorage = [''token'' \<mapsto> ''abc'', ''user'' \<mapsto> ''{}'', ''lang'' \<mapsto> ''hi''],
       location_href = ''/history''\<rparr>
      \<lparr>message = ''Unauthorized'', response = Some \<lparr>status = 401, body = []\<rparr>\<rparr>)) = ''/login''
   \<and> response_rejected
      \<lparr>localStorage = [''token'' \<mapsto> ''abc'', ''user'' \<mapsto> ''{}''], location_href = ''/history''\<rparr>
      \<lparr>message = ''Server Error'', response = Some \<lparr>status = 500, body = []\<rparr>\<rparr>
     = (\<lparr>localStorage = [''token'' \<mapsto> ''abc'', ''user'' \<mapsto> ''{}''], location_href = ''/history''\<rparr>,
        Rejected \<lparr>message = ''Server Error'', response = Some \<lparr>status = 500, body = []\<rparr>\<rparr>)"
  using response_interceptor_401
          [of "\<lparr>message = ''Unauthorized'', response = Some \<lparr>status = 401, body = []\<rparr>\<rparr>"
              "\<lparr>localStorage = [''token'' \<mapsto> ''abc'', ''user'' \<mapsto> ''{}'', ''lang'' \<mapsto> ''hi''],
                location_href = ''/history''\<rparr>"]
        response_interceptor_401
          [of "\<lparr>message = ''Server Error'', response = Some \<lparr>status = 500, body = []\<rparr>\<rparr>"
              "\<lparr>localStorage = [''token'' \<mapsto> ''abc'', ''user'' \<mapsto> ''{}''], location_href = ''/history''\<rparr>"]
  by (simp add: getItem_def)

section \<open>Request interceptor\<close>

text \<open>
  Claim C3, as stated, fails: with the empty string stored under \<open>token\<close> the token is
  present in storage, yet the guard \<open>if (token)\<close> is false and no \<open>Authorization\<close> header
  is set.
\<close>

theorem request_interceptor_empty_token_counterexample:
  "getItem (localStorage \<lparr>localStorage = [''token'' \<mapsto> []], location_href = ''/''\<rparr>) ''token''
     = Some []
   \<and> headers (request_fulfilled
        \<lparr>localStorage = [''token'' \<mapsto> []], location_href = ''/''\<rparr>
        \<lparr>url = ''/auth/me'', http_method = ''get'',
         headers = [''Content-Type'' \<mapsto> ''application/json''], params = [], data = None\<rparr>)
      ''Authorization'' \<noteq> Some (''Bearer '' @ [])"
  by (simp add: request_fulfilled_def getItem_def)

text \<open>
  Claim C3, amended. If a non-empty token is stored, the request configuration returned by
  the interceptor has the header \<open>Authorization\<close> set to \<open>Bearer\<close>, a space and that token;
  if no token is stored, or the stored token is the empty string, the configuration is
  returned as it was. In every case the url, method, params and data of the configuration
  and every header other than \<open>Authorization\<close> are unchanged.
\<close>

theorem request_interceptor_bearer:
  "(\<forall>t. getItem (localStorage b) ''token'' = Some t \<and> t \<noteq> [] \<longrightarrow>
      headers (request_fulfilled b cfg) ''Authorization'' = Some (''Bearer '' @ t))
   \<and> (getItem (localStorage b) ''token'' = None \<or> getItem (localStorage b) ''token'' = Some [] \<longrightarrow>
        request_fulfilled b cfg = cfg)
   \<and> url (request_fulfilled b cfg) = url cfg
   \<and> http_method (request_fulfilled b cfg) = http_method cfg
   \<and> params (request_fulfilled b cfg) = params cfg
   \<and> data (request_fulfilled b cfg) = data cfg
   \<and> (\<forall>k. k \<noteq> ''Authorization'' \<longrightarrow> headers (request_fulfilled b cfg) k = headers cfg k)"
  by (auto simp: request_fulfilled_def split: option.splits)

theorem request_interceptor_bearer_witness:
  "headers (request_fulfilled
      \<lparr>localStorage = [''token'' \<mapsto> ''abc''], location_href = ''/''\<rparr>
      \<lparr>url = ''/auth/me'', http_method = ''get'',
       headers = [''Content-Type'' \<mapsto> ''application/json''], params = [], data = None\<rparr>)
     ''Authorization'' = Some ''Bearer abc''
   \<and> headers (request_fulfilled
      \<lparr>localStorage = [''token'' \<mapsto> ''abc''], location_href = ''/''\<rparr>
      \<lparr>url = ''/auth/me'', http_method = ''get'',
       headers = [''Content-Type'' \<mapsto> ''application/json''], params = [], data = None\<rparr>)
     ''Content-Type'' = Some ''application/json''
   \<and> request_fulfilled
      \<lparr>localStorage = Map.empty, location_href = ''/''\<rparr>
      \<lparr>url = ''/auth/me'', http_method = ''get'',
       headers = [''Content-Type'' \<mapsto> ''application/json''], params = [], data = None\<rparr>
     = \<lparr>url = ''/auth/me'', http_method = ''get'',
       headers = [''Content-Type'' \<mapsto> ''application/json''], params = [], data = None\<rparr>"
  using request_interceptor_bearer
          [of "\<lparr>localStorage = [''token'' \<mapsto> ''abc''], location_href = ''/''\<rparr>"
              "\<lparr>url = ''/auth/me'', http_method = ''get'',
                headers = [''Content-Type'' \<mapsto> ''application/json''], params = [], data = None\<rparr>"]
        request_interceptor_bearer
          [of "\<lparr>localStorage = Map.empty, location_href = ''/''\<rparr>"
              "\<lparr>url = ''/auth/me'', http_method = ''get'',
                headers = [''Content-Type'' \<mapsto> ''application/json''], params = [], data = None\<rparr>"]
  by (simp add: getItem_def)

section \<open>Substring search\<close>

lemma startsWith_iff: "startsWith s q \<longleftrightarrow> (\<exists>ss. s = q @ ss)"
  by (induction s q rule: startsWith.induct) auto

lemma includes_str_iff: "includes_str s q \<longleftrightarrow> (\<exists>ps ss. s = ps @ q @ ss)"
proof (induction s)
  case Nil
  show ?case by (cases q) auto
next
  case (Cons c cs)
  have "(\<exists>ps ss. c # cs = ps @ q @ ss) \<longleftrightarrow>
        (\<exists>ss. c # cs = q @ ss) \<or> (\<exists>ps ss. cs = ps @ q @ ss)"
  proof
    assume "\<exists>ps ss. c # cs = ps @ q @ ss"
    then obtain ps ss where eq: "c # cs = ps @ q @ ss" by blast
    show "(\<exists>ss. c # cs = q @ ss) \<or> (\<exists>ps ss. cs = ps @ q @ ss)"
    proof (cases ps)
      case Nil
      with eq show ?thesis by auto
    next
      case (Cons p ps')
      with eq have "cs = ps' @ q @ ss" by simp
      then show ?thesis by blast
    qed
  next
    assume "(\<exists>ss. c # cs = q @ ss) \<or> (\<exists>ps ss. cs = ps @ q @ ss)"
    then show "\<exists>ps ss. c # cs = ps @ q @ ss"
    proof
      assume "\<exists>ss. c # cs = q @ ss"
      then obtain ss where "c # cs = [] @ q @ ss" by auto
      then show ?thesis by blast
    next
      assume "\<exists>ps ss. cs = ps @ q @ ss"
      then obtain ps ss where "c # cs = (c # ps) @ q @ ss" by auto
      then show ?thesis by blast
    qed
  qed
  with Cons show ?case by (simp add: startsWith_iff del: startsWith.simps)
qed

lemma includes_str_empty: "includes_str s []"
  by (induction s) simp_all

section \<open>Lower-casing of ASCII text\<close>

lemma units_ascii: "ascii s \<Longrightarrow> units s = map (\<lambda>c. [c]) s"
proof (induction s)
  case Nil
  then show ?case by simp
next
  case (Cons c cs)
  then have ih: "units cs = map (\<lambda>c. [c]) cs" and a: "ascii cs"
    by (simp_all add: ascii_def)
  show ?case
  proof (cases cs)
    case Nil
    then show ?thesis by simp
  next
    case (Cons d ds)
    with a have "\<not> isContinuation d" by (simp add: ascii_def isContinuation_def)
    with ih Cons show ?thesis by simp
  qed
qed

lemma decode_ascii: "ascii s \<Longrightarrow> decode s = map of_char s"
  by (simp add: decode_def units_ascii)

lemma lowerAll_small:
  "\<forall>n \<in> set ns. n < 128 \<Longrightarrow> lowerAll after ns = map lowerCodePoint ns"
  by (induction ns arbitrary: after) auto

lemma encode_small:
  "\<forall>n \<in> set ns. n < 128 \<Longrightarrow> encode ns = map char_of ns"
  by (induction ns) (auto simp: encode_def encodeCodePoint_def)

lemma lowerCodePoint_small: "n < 128 \<Longrightarrow> lowerCodePoint n < 128"
  by (simp add: lowerCodePoint_def)

lemma toLowerChar_eq:
  "(of_char c :: int) < 128 \<Longrightarrow> char_of (lowerCodePoint (of_char c :: int)) = toLowerChar c"
  by (simp add: lowerCodePoint_def toLowerChar_def Let_def)

lemma toLowerCase_ascii: "ascii s \<Longrightarrow> toLowerCase s = map toLowerChar s"
proof -
  assume a: "ascii s"
  then have small: "\<forall>c \<in> set s. (of_char c :: int) < 128"
    by (simp add: ascii_def list_all_iff)
  then have "\<forall>n \<in> set (map lowerCodePoint (map of_char s)). n < 128"
    by (auto simp: lowerCodePoint_small)
  with small have "toLowerCase s = map char_of (map lowerCodePoint (map of_char s))"
    by (simp add: toLowerCase_def decode_ascii [OF a] lowerAll_small encode_small)
  also have "\<dots> = map toLowerChar s"
    using small by (simp add: toLowerChar_eq)
  finally show ?thesis .
qed

lemma of_char_toLowerChar:
  "(of_char (toLowerChar c) :: int) =
     (if 65 \<le> (of_char c :: int) \<and> (of_char c :: int) \<le> 90 then of_char c + 32 else of_char c)"
  by (simp add: toLowerChar_def Let_def)

lemma toLowerChar_same_letter: "toLowerChar c = toLowerChar d \<longleftrightarrow> same_letter c d"
proof -
  have "toLowerChar c = toLowerChar d
          \<longleftrightarrow> (of_char (toLowerChar c) :: int) = of_char (toLowerChar d)"
    by simp
  also have "\<dots> \<longleftrightarrow> same_letter c d"
  proof -
    have "c = d \<longleftrightarrow> (of_char c :: int) = of_char d" by simp
    then show ?thesis
      unfolding same_letter_def of_char_toLowerChar by (auto split: if_splits)
  qed
  finally show ?thesis .
qed

lemma map_toLowerChar_eq:
  "map toLowerChar m = map toLowerChar q \<longleftrightarrow> list_all2 same_letter m q"
proof -
  have "map toLowerChar m = map toLowerChar q
          \<longleftrightarrow> list_all2 (\<lambda>c d. toLowerChar c = toLowerChar d) m q"
    by (simp add: list.rel_eq [symmetric] list.rel_map del: list.rel_eq)
  then show ?thesis by (simp add: toLowerChar_same_letter)
qed

lemma includes_ascii:
  assumes "ascii s" and "ascii q"
  shows "includes_str (toLowerCase s) (toLowerCase q)
           \<longleftrightarrow> (\<exists>ps m ss. s = ps @ m @ ss \<and> list_all2 same_letter m q)"
proof
  assume "includes_str (toLowerCase s) (toLowerCase q)"
  then obtain ps' ss' where "map toLowerChar s = ps' @ (map toLowerChar q @ ss')"
    using assms by (auto simp: toLowerCase_ascii includes_str_iff)
  then have "\<exists>ps r. s = ps @ r \<and> ps' = map toLowerChar ps
               \<and> map toLowerChar q @ ss' = map toLowerChar r"
    by (simp only: map_eq_append_conv)
  then obtain ps r where s: "s = ps @ r" and r: "map toLowerChar q @ ss' = map toLowerChar r"
    by blast
  from r have "\<exists>m ss. r = m @ ss \<and> map toLowerChar q = map toLowerChar m
                 \<and> ss' = map toLowerChar ss"
    by (simp only: append_eq_map_conv)
  then obtain m ss where "r = m @ ss" and "map toLowerChar m = map toLowerChar q"
    by auto
  with s have "s = ps @ m @ ss \<and> list_all2 same_letter m q"
    by (simp add: map_toLowerChar_eq)
  then show "\<exists>ps m ss. s = ps @ m @ ss \<and> list_all2 same_letter m q" by blast
next
  assume "\<exists>ps m ss. s = ps @ m @ ss \<and> list_all2 same_letter m q"
  then obtain ps m ss where s: "s = ps @ m @ ss" and "list_all2 same_letter m q" by blast
  then have "map toLowerChar m = map toLowerChar q" by (simp add: map_toLowerChar_eq)
  with s have "map toLowerChar s = map toLowerChar ps @ map toLowerChar q @ map toLowerChar ss"
    by simp
  then show "includes_str (toLowerCase s) (toLowerCase q)"
    using assms by (auto simp: toLowerCase_ascii includes_str_iff)
qed

section \<open>History filter\<close>

lemma matchesSearch_iff:
  "matchesSearch lower q s \<longleftrightarrow>
     (\<exists>ps ss. lower (raw_input s) = ps @ lower q @ ss)
     \<or> (\<exists>subj ps ss. subject s = Some subj \<and> lower subj = ps @ lower q @ ss)"
  by (cases "subject s") (simp_all add: matchesSearch_def includes_str_iff)

lemma matchesSearch_ascii:
  assumes "ascii q" and "ascii (raw_input s)" and "\<forall>subj. subject s = Some subj \<longrightarrow> ascii subj"
  shows "matchesSearch toLowerCase q s \<longleftrightarrow>
     (\<exists>ps m ss. raw_input s = ps @ m @ ss \<and> list_all2 same_letter m q)
     \<or> (\<exists>subj ps m ss. subject s = Some subj \<and> subj = ps @ m @ ss \<and> list_all2 same_letter m q)"
  using assms by (cases "subject s") (simp_all add: matchesSearch_def includes_ascii)

lemma toLowerCase_Nil: "toLowerCase [] = []"
  by (simp add: toLowerCase_def decode_def encode_def)

lemma history_example_ascii:
  "ascii ''FRACTION''" "ascii ''Students do not understand Fractions''" "ascii ''Noisy class''"
  "ascii ''Math''" "ascii ''Homework''" "ascii ''fractions''"
  by (simp_all add: ascii_def)

lemma history_example_filtered:
  "filteredRequests toLowerCase
     [\<lparr>sos_id = ''1'', raw_input = ''Students do not understand Fractions'', subject = None,
        sos_status = ''resolved''\<rparr>,
      \<lparr>sos_id = ''2'', raw_input = ''Noisy class'', subject = Some ''Math'',
        sos_status = ''pending''\<rparr>,
      \<lparr>sos_id = ''3'', raw_input = ''Homework'', subject = Some ''fractions'',
        sos_status = ''resolved''\<rparr>]
     ''all'' ''FRACTION''
   = [\<lparr>sos_id = ''1'', raw_input = ''Students do not understand Fractions'', subject = None,
        sos_status = ''resolved''\<rparr>,
      \<lparr>sos_id = ''3'', raw_input = ''Homework'', subject = Some ''fractions'',
        sos_status = ''resolved''\<rparr>]"
  by code_simp

lemma history_example_includes:
  "includes_str (toLowerCase ''Students do not understand Fractions'') (toLowerCase ''FRACTION'')"
  by code_simp

text \<open>
  Claim C9, as stated, fails. The Greek word for fractions in capital letters contains the
  query made of its first four letters, and the filter is \<open>all\<close>; but \<open>toLowerCase\<close> turns the
  sigma that ends the query into the final small sigma and the same sigma inside the word
  into the small sigma, so the lower-cased word does not contain the lower-cased query and
  the record is left out.
\<close>

theorem filteredRequests_final_sigma_counterexample:
  "raw_input \<lparr>sos_id = ''1'',
       raw_input = [CHR 0xCE, CHR 0x9A, CHR 0xCE, CHR 0x9B, CHR 0xCE, CHR 0x91, CHR 0xCE, CHR 0xA3,
                    CHR 0xCE, CHR 0x9C, CHR 0xCE, CHR 0x91, CHR 0xCE, CHR 0xA4, CHR 0xCE, CHR 0x91],
       subject = None, sos_status = ''resolved''\<rparr>
     = [] @ [CHR 0xCE, CHR 0x9A, CHR 0xCE, CHR 0x9B, CHR 0xCE, CHR 0x91, CHR 0xCE, CHR 0xA3]
          @ [CHR 0xCE, CHR 0x9C, CHR 0xCE, CHR 0x91, CHR 0xCE, CHR 0xA4, CHR 0xCE, CHR 0x91]
   \<and> filteredRequests toLowerCase
       [\<lparr>sos_id = ''1'',
         raw_input = [CHR 0xCE, CHR 0x9A, CHR 0xCE, CHR 0x9B, CHR 0xCE, CHR 0x91, CHR 0xCE, CHR 0xA3,
                      CHR 0xCE, CHR 0x9C, CHR 0xCE, CHR 0x91, CHR 0xCE, CHR 0xA4, CHR 0xCE, CHR 0x91],
         subject = None, sos_status = ''resolved''\<rparr>]
       ''all'' [CHR 0xCE, CHR 0x9A, CHR 0xCE, CHR 0x9B, CHR 0xCE, CHR 0x91, CHR 0xCE, CHR 0xA3]
     = []"
  by code_simp

text \<open>
  Claim C9, amended. For every lower-casing function, the filtered list of the History page
  is the loaded list restricted, in order, to the records whose status is the selected
  filter (every record when the filter is \<open>all\<close>) and whose lower-cased \<open>raw_input\<close>, or
  lower-cased subject when there is one, has the lower-cased query as a substring. For
  ASCII text, where \<open>toLowerCase\<close> maps each capital letter to its small letter, this is:
  the \<open>raw_input\<close>, or the subject, has a substring that equals the query up to the case of
  its letters. With the filter \<open>all\<close> and the empty query the filtered list is the loaded
  list, and a record without subject is kept whenever its status passes and its lower-cased
  \<open>raw_input\<close> contains the lower-cased query.
\<close>

theorem filteredRequests_lowercased:
  "filteredRequests lower rs flt q =
     filter (\<lambda>s. (flt = ''all'' \<or> sos_status s = flt)
                \<and> ((\<exists>ps ss. lower (raw_input s) = ps @ lower q @ ss)
                   \<or> (\<exists>subj ps ss. subject s = Some subj \<and> lower subj = ps @ lower q @ ss))) rs
   \<and> (ascii q \<and> (\<forall>s \<in> set rs. ascii (raw_input s) \<and> (\<forall>subj. subject s = Some subj \<longrightarrow> ascii subj))
        \<longrightarrow> filteredRequests toLowerCase rs flt q =
              filter (\<lambda>s. (flt = ''all'' \<or> sos_status s = flt)
                \<and> ((\<exists>ps m ss. raw_input s = ps @ m @ ss \<and> list_all2 same_letter m q)
                   \<or> (\<exists>subj ps m ss. subject s = Some subj \<and> subj = ps @ m @ ss
                         \<and> list_all2 same_letter m q))) rs)
   \<and> (lower [] = [] \<longrightarrow> filteredRequests lower rs ''all'' [] = rs)
   \<and> (\<forall>s \<in> set rs.
         subject s = None \<and> (flt = ''all'' \<or> sos_status s = flt)
         \<and> (\<exists>ps ss. lower (raw_input s) = ps @ lower q @ ss)
         \<longrightarrow> s \<in> set (filteredRequests lower rs flt q))"
proof (intro conjI impI)
  show "filteredRequests lower rs flt q =
     filter (\<lambda>s. (flt = ''all'' \<or> sos_status s = flt)
                \<and> ((\<exists>ps ss. lower (raw_input s) = ps @ lower q @ ss)
                   \<or> (\<exists>subj ps ss. subject s = Some subj \<and> lower subj = ps @ lower q @ ss))) rs"
    by (simp add: filteredRequests_def matchesFilter_def matchesSearch_iff)
next
  assume a: "ascii q \<and> (\<forall>s \<in> set rs. ascii (raw_input s)
                \<and> (\<forall>subj. subject s = Some subj \<longrightarrow> ascii subj))"
  show "filteredRequests toLowerCase rs flt q =
          filter (\<lambda>s. (flt = ''all'' \<or> sos_status s = flt)
            \<and> ((\<exists>ps m ss. raw_input s = ps @ m @ ss \<and> list_all2 same_letter m q)
               \<or> (\<exists>subj ps m ss. subject s = Some subj \<and> subj = ps @ m @ ss
                     \<and> list_all2 same_letter m q))) rs"
    unfolding filteredRequests_def matchesFilter_def
  proof (rule filter_cong [OF refl])
    fix s
    assume "s \<in> set rs"
    with a have "ascii q" "ascii (raw_input s)" "\<forall>subj. subject s = Some subj \<longrightarrow> ascii subj"
      by simp_all
    from matchesSearch_ascii [OF this]
    show "((flt = ''all'' \<or> sos_status s = flt) \<and> matchesSearch toLowerCase q s) =
          ((flt = ''all'' \<or> sos_status s = flt)
            \<and> ((\<exists>ps m ss. raw_input s = ps @ m @ ss \<and> list_all2 same_letter m q)
               \<or> (\<exists>subj ps m ss. subject s = Some subj \<and> subj = ps @ m @ ss
                     \<and> list_all2 same_letter m q)))"
      by simp
  qed
next
  assume "lower [] = []"
  then show "filteredRequests lower rs ''all'' [] = rs"
    by (simp add: filteredRequests_def matchesFilter_def matchesSearch_def includes_str_empty)
next
  show "\<forall>s \<in> set rs.
         subject s = None \<and> (flt = ''all'' \<or> sos_status s = flt)
         \<and> (\<exists>ps ss. lower (raw_input s) = ps @ lower q @ ss)
         \<longrightarrow> s \<in> set (filteredRequests lower rs flt q)"
    by (auto simp: filteredRequests_def matchesFilter_def matchesSearch_iff)
qed

theorem filteredRequests_lowercased_witness:
  "filter (\<lambda>s. (''all'' = ''all'' \<or> sos_status s = ''all'')
             \<and> ((\<exists>ps m ss. raw_input s = ps @ m @ ss \<and> list_all2 same_letter m ''FRACTION'')
                \<or> (\<exists>subj ps m ss. subject s = Some subj \<and> subj = ps @ m @ ss
                      \<and> list_all2 same_letter m ''FRACTION'')))
     [\<lparr>sos_id = ''1'', raw_input = ''Students do not understand Fractions'', subject = None,
        sos_status = ''resolved''\<rparr>,
      \<lparr>sos_id = ''2'', raw_input = ''Noisy class'', subject = Some ''Math'',
        sos_status = ''pending''\<rparr>,
      \<lparr>sos_id = ''3'', raw_input = ''Homework'', subject = Some ''fractions'',
        sos_status = ''resolved''\<rparr>]
   = [\<lparr>sos_id = ''1'', raw_input = ''Students do not understand Fractions'', subject = None,
        sos_status = ''resolved''\<rparr>,
      \<lparr>sos_id = ''3'', raw_input = ''Homework'', subject = Some ''fractions'',
        sos_status = ''resolved''\<rparr>]
   \<and> filteredRequests toLowerCase
       [\<lparr>sos_id = ''1'', raw_input = ''Students do not understand Fractions'', subject = None,
          sos_status = ''resolved''\<rparr>,
        \<lparr>sos_id = ''2'', raw_input = ''Noisy class'', subject = Some ''Math'',
          sos_status = ''pending''\<rparr>,
        \<lparr>sos_id = ''3'', raw_input = ''Homework'', subject = Some ''fractions'',
          sos_status = ''resolved''\<rparr>]
       ''all'' []
     = [\<lparr>sos_id = ''1'', raw_input = ''Students do not understand Fractions'', subject = None,
          sos_status = ''resolved''\<rparr>,
        \<lparr>sos_id = ''2'', raw_input = ''Noisy class'', subject = Some ''Math'',
          sos_status = ''pending''\<rparr>,
        \<lparr>sos_id = ''3'', raw_input = ''Homework'', subject = Some ''fractions'',
          sos_status = ''resolved''\<rparr>]
   \<and> \<lparr>sos_id = ''1'', raw_input = ''Students do not understand Fractions'', subject = None,
        sos_status = ''resolved''\<rparr>
     \<in> set (filteredRequests toLowerCase
         [\<lparr>sos_id = ''1'', raw_input = ''Students do not understand Fractions'', subject = None,
            sos_status = ''resolved''\<rparr>,
          \<lparr>sos_id = ''2'', raw_input = ''Noisy class'', subject = Some ''Math'',
            sos_status = ''pending''\<rparr>,
          \<lparr>sos_id = ''3'', raw_input = ''Homework'', subject = Some ''fractions'',
            sos_status = ''resolved''\<rparr>]
         ''resolved'' ''FRACTION'')"
proof -
  let ?rs = "[\<lparr>sos_id = ''1'', raw_input = ''Students do not understand Fractions'',
                subject = None, sos_status = ''resolved''\<rparr>,
              \<lparr>sos_id = ''2'', raw_input = ''Noisy class'', subject = Some ''Math'',
                sos_status = ''pending''\<rparr>,
              \<lparr>sos_id = ''3'', raw_input = ''Homework'', subject = Some ''fractions'',
                sos_status = ''resolved''\<rparr>]"
  have h: "\<exists>ps ss. toLowerCase ''Students do not understand Fractions''
                     = ps @ toLowerCase ''FRACTION'' @ ss"
    using history_example_includes by (simp only: includes_str_iff)
  have hyp: "ascii ''FRACTION''
      \<and> (\<forall>s \<in> set ?rs. ascii (raw_input s) \<and> (\<forall>subj. subject s = Some subj \<longrightarrow> ascii subj))"
    by (simp add: history_example_ascii)
  have "filteredRequests toLowerCase ?rs ''all'' ''FRACTION'' =
      filter (\<lambda>s. (''all'' = ''all'' \<or> sos_status s = ''all'')
             \<and> ((\<exists>ps m ss. raw_input s = ps @ m @ ss \<and> list_all2 same_letter m ''FRACTION'')
                \<or> (\<exists>subj ps m ss. subject s = Some subj \<and> subj = ps @ m @ ss
                      \<and> list_all2 same_letter m ''FRACTION''))) ?rs"
    by (rule filteredRequests_lowercased
          [of toLowerCase ?rs "''all''" "''FRACTION''", THEN conjunct2, THEN conjunct1,
           THEN mp, OF hyp])
  then have dropped:
     "filter (\<lambda>s. (''all'' = ''all'' \<or> sos_status s = ''all'')
             \<and> ((\<exists>ps m ss. raw_input s = ps @ m @ ss \<and> list_all2 same_letter m ''FRACTION'')
                \<or> (\<exists>subj ps m ss. subject s = Some subj \<and> subj = ps @ m @ ss
                      \<and> list_all2 same_letter m ''FRACTION''))) ?rs
      = [\<lparr>sos_id = ''1'', raw_input = ''Students do not understand Fractions'', subject = None,
           sos_status = ''resolved''\<rparr>,
         \<lparr>sos_id = ''3'', raw_input = ''Homework'', subject = Some ''fractions'',
           sos_status = ''resolved''\<rparr>]"
    by (simp only: history_example_filtered)
  have empty: "filteredRequests toLowerCase ?rs ''all'' [] = ?rs"
    by (rule filteredRequests_lowercased
          [of toLowerCase ?rs "''all''" "[]", THEN conjunct2, THEN conjunct2, THEN conjunct1,
           THEN mp, OF toLowerCase_Nil])
  have member: "\<lparr>sos_id = ''1'', raw_input = ''Students do not understand Fractions'',
                  subject = None, sos_status = ''resolved''\<rparr> \<in> set ?rs"
    by simp
  have passes:
    "subject \<lparr>sos_id = ''1'', raw_input = ''Students do not understand Fractions'',
                subject = None, sos_status = ''resolved''\<rparr> = None
     \<and> (''resolved'' = ''all''
         \<or> sos_status \<lparr>sos_id = ''1'', raw_input = ''Students do not understand Fractions'',
                subject = None, sos_status = ''resolved''\<rparr> = ''resolved'')
     \<and> (\<exists>ps ss. toLowerCase (raw_input \<lparr>sos_id = ''1'',
                raw_input = ''Students do not understand Fractions'',
                subject = None, sos_status = ''resolved''\<rparr>)
           = ps @ toLowerCase ''FRACTION'' @ ss)"
    using h by simp
  have kept: "\<lparr>sos_id = ''1'', raw_input = ''Students do not understand Fractions'',
                subject = None, sos_status = ''resolved''\<rparr>
              \<in> set (filteredRequests toLowerCase ?rs ''resolved'' ''FRACTION'')"
    by (rule filteredRequests_lowercased
          [of toLowerCase ?rs "''resolved''" "''FRACTION''", THEN conjunct2, THEN conjunct2,
           THEN conjunct2, THEN bspec, OF member, THEN mp, OF passes])
  from dropped empty kept show ?thesis
    by - (rule conjI, assumption, rule conjI, assumption, assumption)
qed

section \<open>Quick SOS query string\<close>

lemma hexDigit_in: "n < 16 \<Longrightarrow> hexDigit n \<in> set ''0123456789ABCDEF''"
  unfolding hexDigit_def by (rule nth_mem) simp

lemma hexDigit_not_delim: "n < 16 \<Longrightarrow> hexDigit n \<noteq> CHR ''&'' \<and> hexDigit n \<noteq> CHR ''=''"
  using hexDigit_in [of n] by auto

lemma of_char_div_16: "(of_char c :: nat) div 16 < 16"
proof -
  have "(of_char c :: nat) < 256" by simp
  then show ?thesis by arith
qed

lemma percentEncode_no_delim:
  "CHR ''&'' \<notin> set (percentEncode c) \<and> CHR ''='' \<notin> set (percentEncode c)"
  using hexDigit_not_delim [OF of_char_div_16, of c] hexDigit_not_delim [of "of_char c mod 16"]
  by (auto simp: percentEncode_def Let_def)

lemma unreserved_not_delim: "unreserved c \<Longrightarrow> c \<noteq> CHR ''&'' \<and> c \<noteq> CHR ''=''"
  by (auto simp: unreserved_def Let_def)

lemma urlencodeByte_no_delim:
  "CHR ''&'' \<notin> set (urlencodeByte c) \<and> CHR ''='' \<notin> set (urlencodeByte c)"
  using percentEncode_no_delim [of c] unreserved_not_delim [of c]
  by (auto simp: urlencodeByte_def)

lemma urlencode_no_delim:
  "CHR ''&'' \<notin> set (urlencode s) \<and> CHR ''='' \<notin> set (urlencode s)"
  using urlencodeByte_no_delim by (induction s) (auto simp: urlencode_def)

lemma split_on_none: "d \<notin> set xs \<Longrightarrow> split_on d xs = [xs]"
  by (induction xs) auto

lemma split_on_append: "d \<notin> set xs \<Longrightarrow> split_on d (xs @ d # ys) = xs # split_on d ys"
  by (induction xs) auto

lemma enc_pair_no_amp: "CHR ''&'' \<notin> set (enc_pair p)"
  using urlencode_no_delim [of "fst p"] urlencode_no_delim [of "snd p"]
  by (simp add: enc_pair_def)

lemma split_on_join:
  "ps \<noteq> [] \<Longrightarrow> split_on (CHR ''&'') (join ''&'' (map enc_pair ps)) = map enc_pair ps"
proof (induction ps rule: induct_list012)
  case 1
  then show ?case by simp
next
  case (2 x)
  then show ?case by (simp add: split_on_none enc_pair_no_amp)
next
  case (3 x y zs)
  then show ?case using split_on_append [OF enc_pair_no_amp, of x] by simp
qed

lemma cut_enc_pair: "cut_pair (enc_pair p) = (urlencode (fst p), urlencode (snd p))"
proof -
  have "\<forall>c \<in> set (urlencode (fst p)). c \<noteq> CHR ''=''"
    using urlencode_no_delim [of "fst p"] by auto
  then show ?thesis
    by (simp add: cut_pair_def enc_pair_def)
qed

lemma query_pairs_toString:
  "ps \<noteq> [] \<Longrightarrow> query_pairs (toString ps) = map (\<lambda>(k, v). (urlencode k, urlencode v)) ps"
  by (simp add: query_pairs_def toString_def split_on_join cut_enc_pair split_def)

lemma quick_params_eq:
  "quick_params raw subj grd =
     (''raw_input'', raw)
       # (case subj of None \<Rightarrow> [] | Some s \<Rightarrow> if s \<noteq> [] then [(''subject'', s)] else [])
       @ (case grd of None \<Rightarrow> [] | Some g \<Rightarrow> if g \<noteq> [] then [(''grade'', g)] else [])"
  by (simp add: quick_params_def append_param_def split: option.splits)

lemma urlencode_keys:
  "urlencode ''raw_input'' = ''raw_input''" "urlencode ''subject'' = ''subject''"
  "urlencode ''grade'' = ''grade''"
  by code_simp+

lemma urlencode_values:
  "urlencode ''Students don't understand fractions'' = ''Students+don%27t+understand+fractions''"
  "urlencode ''Math'' = ''Math''" "urlencode ''5'' = ''5''"
  by code_simp+

lemma query_pairs_quick:
  "query_pairs (toString (quick_params raw subj grd)) =
     (''raw_input'', urlencode raw)
       # (case subj of None \<Rightarrow> [] | Some s \<Rightarrow> if s \<noteq> [] then [(''subject'', urlencode s)] else [])
       @ (case grd of None \<Rightarrow> [] | Some g \<Rightarrow> if g \<noteq> [] then [(''grade'', urlencode g)] else [])"
  by (simp add: query_pairs_toString quick_params_eq urlencode_keys split: option.splits)

text \<open>
  Claim C10. The URL of the quick SOS call is \<open>/sos/quick?\<close> followed by the serialised
  parameters. Read back as pairs, the query string has the key \<open>raw_input\<close> with the
  URL-encoded input as its value, has a key \<open>subject\<close> exactly when the subject argument is
  truthy (a non-empty string, so neither \<open>null\<close> nor the empty string), and has a key
  \<open>grade\<close> exactly when the grade argument is truthy; a key that is there carries the
  URL-encoded argument.
\<close>

theorem quick_url_query:
  "quick_url raw subj grd = ''/sos/quick?'' @ toString (quick_params raw subj grd)
   \<and> map_of (query_pairs (toString (quick_params raw subj grd))) ''raw_input''
       = Some (urlencode raw)
   \<and> (''subject'' \<in> fst ` set (query_pairs (toString (quick_params raw subj grd)))
        \<longleftrightarrow> truthy subj)
   \<and> (''grade'' \<in> fst ` set (query_pairs (toString (quick_params raw subj grd)))
        \<longleftrightarrow> truthy grd)
   \<and> (\<forall>s. subj = Some s \<and> s \<noteq> [] \<longrightarrow>
         map_of (query_pairs (toString (quick_params raw subj grd))) ''subject''
           = Some (urlencode s))
   \<and> (\<forall>g. grd = Some g \<and> g \<noteq> [] \<longrightarrow>
         map_of (query_pairs (toString (quick_params raw subj grd))) ''grade''
           = Some (urlencode g))"
  by (cases subj; cases grd) (auto simp: quick_url_def query_pairs_quick)

theorem quick_url_query_witness:
  "map_of (query_pairs (toString (quick_params ''Students don't understand fractions''
       (Some ''Math'') (Some ''5'')))) ''raw_input''
     = Some ''Students+don%27t+understand+fractions''
   \<and> map_of (query_pairs (toString (quick_params ''Students don't understand fractions''
       (Some ''Math'') (Some ''5'')))) ''subject'' = Some ''Math''
   \<and> map_of (query_pairs (toString (quick_params ''Students don't understand fractions''
       (Some ''Math'') (Some ''5'')))) ''grade'' = Some ''5''
   \<and> ''subject'' \<notin> fst ` set (query_pairs (toString (quick_params
       ''Students don't understand fractions'' None (Some []))))
   \<and> ''grade'' \<notin> fst ` set (query_pairs (toString (quick_params
       ''Students don't understand fractions'' None (Some []))))"
  using quick_url_query [of "''Students don't understand fractions''" "Some ''Math''" "Some ''5''"]
        quick_url_query [of "''Students don't understand fractions''" None "Some []"]
  by (simp add: urlencode_values)

section \<open>Request status progression\<close>

lemma status_cases: "(UNIV :: request_status set) = {Pending, Processing, Resolved, Failed}"
proof -
  have "s \<in> {Pending, Processing, Resolved, Failed}" for s :: request_status
    by (cases s) simp_all
  then show ?thesis by blast
qed

lemma transition_iff:
  "transition s s' \<longleftrightarrow>
     (s = Pending \<and> s' = Processing) \<or> (s = Processing \<and> (s' = Resolved \<or> s' = Failed))"
  by (cases s; cases s') simp_all

lemma step_status:
  "req_status (step r e) = req_status r \<or> transition (req_status r) (req_status (step r e))"
  by (cases e) auto

lemma step_final: "req_status r = Resolved \<or> req_status r = Failed \<Longrightarrow> step r e = r"
  by (cases e) auto

lemma steps_final: "req_status r = Resolved \<or> req_status r = Failed \<Longrightarrow> steps r es = r"
  unfolding steps_def by (induction es) (simp_all add: step_final)

text \<open>The History page gives each of the four statuses its own icon; \<open>pending\<close> is served
  by the default branch of the switch.\<close>

lemma getStatusIcon_status_name:
  "map (\<lambda>s. getStatusIcon (status_name s)) [Resolved, Failed, Processing, Pending]
     = [CheckCircle, XCircle, Clock, AlertCircle]"
  by (simp add: getStatusIcon_def)

text \<open>
  Claim C7. A Request status is one of pending, processing, resolved and failed. Every event
  either leaves the status as it is or moves it along the progression, whose only moves are
  pending to processing, processing to resolved and processing to failed. A resolved Request
  is left unchanged by every sequence of events, and so is a failed one: nothing moves it
  back to pending or processing, so it is never retried.
\<close>

theorem request_status_progression:
  "(UNIV :: request_status set) = {Pending, Processing, Resolved, Failed}
   \<and> (req_status (step r e) = req_status r
        \<or> transition (req_status r) (req_status (step r e)))
   \<and> (transition s s' \<longleftrightarrow>
        (s = Pending \<and> s' = Processing) \<or> (s = Processing \<and> (s' = Resolved \<or> s' = Failed)))
   \<and> (req_status r = Resolved \<longrightarrow> steps r es = r)
   \<and> (req_status r = Failed \<longrightarrow> steps r es = r)"
  using status_cases step_status [of r e] transition_iff [of s s'] steps_final [of r es]
  by blast

theorem request_status_progression_witness:
  "steps \<lparr>req_id = 1, author = 7, raw_text = ''Noisy class'', detected_subject = None,
          detected_grade = None, req_status = Resolved, created_day = 3,
          playbook_ref = Some 4\<rparr>
         [StartProcessing, MarkFailed, AttachPlaybook 9]
     = \<lparr>req_id = 1, author = 7, raw_text = ''Noisy class'', detected_subject = None,
        detected_grade = None, req_status = Resolved, created_day = 3, playbook_ref = Some 4\<rparr>
   \<and> steps \<lparr>req_id = 2, author = 7, raw_text = ''Noisy class'', detected_subject = None,
          detected_grade = None, req_status = Failed, created_day = 3, playbook_ref = None\<rparr>
         [StartProcessing, AttachPlaybook 9]
     = \<lparr>req_id = 2, author = 7, raw_text = ''Noisy class'', detected_subject = None,
        detected_grade = None, req_status = Failed, created_day = 3, playbook_ref = None\<rparr>"
  using request_status_progression
          [of "\<lparr>req_id = 1, author = 7, raw_text = ''Noisy class'', detected_subject = None,
                detected_grade = None, req_status = Resolved, created_day = 3,
                playbook_ref = Some 4\<rparr>" StartProcessing Pending Processing
              "[StartProcessing, MarkFailed, AttachPlaybook 9]"]
        request_status_progression
          [of "\<lparr>req_id = 2, author = 7, raw_text = ''Noisy class'', detected_subject = None,
                detected_grade = None, req_status = Failed, created_day = 3,
                playbook_ref = None\<rparr>" StartProcessing Pending Processing
              "[StartProcessing, AttachPlaybook 9]"]
  by simp

section \<open>Dashboard counts\<close>

lemma count_of_Nil: "count_of [] j = 0"
  by (simp add: count_of_def)

lemma count_of_bump:
  "count_of (bump k groups) j = (if j = k then Suc (count_of groups j) else count_of groups j)"
  by (induction k groups rule: bump.induct) (auto simp: count_of_def)

lemma count_of_fold_bump:
  "count_of (fold (\<lambda>x acc. bump (key x) acc) xs acc) j
     = count_of acc j + length (filter (\<lambda>x. key x = j) xs)"
  by (induction xs arbitrary: acc) (auto simp: count_of_bump)

lemma count_of_group_count:
  "count_of (group_count key xs) j = length (filter (\<lambda>x. key x = j) xs)"
  by (simp add: group_count_def count_of_fold_bump count_of_Nil)

lemma fold_Suc_length: "fold (\<lambda>r n. Suc n) xs n = n + length xs"
  by (induction xs arbitrary: n) auto

text \<open>On the client side every dashboard call is a \<open>GET\<close> without a body.\<close>

lemma dashboardAPI_reads:
  "map call_method [getTeacher, getCRP d, getDIET d, getOverview] = [''get'', ''get'', ''get'', ''get'']"
  "map call_body [getTeacher, getCRP d, getDIET d, getOverview] = [None, None, None, None]"
  "call_params (getCRP Undefined) = [(''days'', Number 7)]"
  "call_params (getCRP Null) = [(''days'', Null)]"
  "call_params (getDIET (Number n)) = [(''days'', Number n)]"
  by (simp_all add: getTeacher_def getCRP_def getDIET_def getOverview_def)

text \<open>
  Claim C4. For every role scope and every time window, the total returned by the dashboard
  is the number of Request records in scope and in the window, the count reported for a
  subject is the number of those records with that subject, the count reported for a day is
  the number of those records created on that day, and the store handed back is the store
  that was read.
\<close>

theorem dashboard_counts:
  "fst (dashboard in_scope days now db) = db
   \<and> total (snd (dashboard in_scope days now db))
       = length (filter (\<lambda>r. in_scope r \<and> in_window now days r) db)
   \<and> count_of (by_subject (snd (dashboard in_scope days now db))) subj
       = length (filter (\<lambda>r. (in_scope r \<and> in_window now days r) \<and> detected_subject r = subj) db)
   \<and> count_of (by_day (snd (dashboard in_scope days now db))) day
       = length (filter (\<lambda>r. (in_scope r \<and> in_window now days r) \<and> created_day r = day) db)"
  by (simp add: dashboard_def Let_def fold_Suc_length count_of_group_count)

section \<open>Votes\<close>

lemma apply_op_keeps:
  "i < length lib \<Longrightarrow>
     i < length (apply_op op lib) \<and> votes (lib ! i) \<le> votes (apply_op op lib ! i)
     \<and> sol_author (apply_op op lib ! i) = sol_author (lib ! i)
     \<and> content (apply_op op lib ! i) = content (lib ! i)"
  by (cases op) (auto simp: share_def vote_def nth_append nth_list_update)

lemma run_ops_keeps:
  "i < length lib \<Longrightarrow>
     i < length (run_ops ops lib) \<and> votes (lib ! i) \<le> votes (run_ops ops lib ! i)
     \<and> sol_author (run_ops ops lib ! i) = sol_author (lib ! i)
     \<and> content (run_ops ops lib ! i) = content (lib ! i)"
  unfolding run_ops_def
proof (induction ops arbitrary: lib)
  case Nil
  then show ?case by simp
next
  case (Cons op ops)
  from apply_op_keeps [OF Cons.prems, of op]
  have a: "i < length (apply_op op lib)"
    and b: "votes (lib ! i) \<le> votes (apply_op op lib ! i)"
    and c: "sol_author (apply_op op lib ! i) = sol_author (lib ! i)"
           "content (apply_op op lib ! i) = content (lib ! i)"
    by simp_all
  from Cons.IH [OF a] b c show ?case by auto
qed

lemma run_ops_append: "run_ops (ops1 @ ops2) lib = run_ops ops2 (run_ops ops1 lib)"
  by (simp add: run_ops_def)

lemma interleaving_example:
  "[Vote 0, Vote 0, Share 7 ''Use paper strips''] \<in>
     set (interleavings [Vote 0, Share 7 ''Use paper strips''] [Vote 0])"
  by simp

text \<open>
  Claim C5. A solution that is in the library is still in it, with its author and content,
  after every sequence of share and vote operations, and its vote count after a longer
  sequence is at least its count after any prefix of that sequence. The same holds for every
  interleaving of the operations of two concurrent clients.
\<close>

theorem votes_monotone:
  assumes "i < length lib"
  shows "i < length (run_ops ops1 lib)
       \<and> i < length (run_ops (ops1 @ ops2) lib)
       \<and> votes (run_ops ops1 lib ! i) \<le> votes (run_ops (ops1 @ ops2) lib ! i)
       \<and> sol_author (run_ops ops1 lib ! i) = sol_author (lib ! i)
       \<and> content (run_ops ops1 lib ! i) = content (lib ! i)
       \<and> (\<forall>sched \<in> set (interleavings xs ys).
             i < length (run_ops sched lib)
             \<and> votes (lib ! i) \<le> votes (run_ops sched lib ! i)
             \<and> sol_author (run_ops sched lib ! i) = sol_author (lib ! i)
             \<and> content (run_ops sched lib ! i) = content (lib ! i))"
proof -
  from run_ops_keeps [OF assms, of ops1]
  have a: "i < length (run_ops ops1 lib)"
    and k: "sol_author (run_ops ops1 lib ! i) = sol_author (lib ! i)"
           "content (run_ops ops1 lib ! i) = content (lib ! i)"
    by simp_all
  from run_ops_keeps [OF a, of ops2]
  have "i < length (run_ops (ops1 @ ops2) lib)"
    and "votes (run_ops ops1 lib ! i) \<le> votes (run_ops (ops1 @ ops2) lib ! i)"
    by (simp_all add: run_ops_append)
  with a k run_ops_keeps [OF assms] show ?thesis by blast
qed

theorem votes_monotone_witness:
  "(0::nat) < length [\<lparr>sol_author = 7, content = ''Fold a paper'', votes = 2, trust_score = 0\<rparr>]
   \<and> votes (run_ops [Vote 0]
        [\<lparr>sol_author = 7, content = ''Fold a paper'', votes = 2, trust_score = 0\<rparr>] ! 0)
     \<le> votes (run_ops ([Vote 0] @ [Share 8 ''Sing it'', Vote 0, Vote 5])
        [\<lparr>sol_author = 7, content = ''Fold a paper'', votes = 2, trust_score = 0\<rparr>] ! 0)
   \<and> votes ([\<lparr>sol_author = 7, content = ''Fold a paper'', votes = 2, trust_score = 0\<rparr>] ! 0)
     \<le> votes (run_ops [Vote 0, Vote 0, Share 7 ''Use paper strips'']
        [\<lparr>sol_author = 7, content = ''Fold a paper'', votes = 2, trust_score = 0\<rparr>] ! 0)"
proof -
  have h: "(0::nat) < length [\<lparr>sol_author = 7, content = ''Fold a paper'', votes = 2,
                               trust_score = 0\<rparr>]"
    by simp
  show ?thesis
    using h interleaving_example
      votes_monotone [OF h, of "[Vote 0]" "[Share 8 ''Sing it'', Vote 0, Vote 5]"
        "[Vote 0, Share 7 ''Use paper strips'']" "[Vote 0]"]
    by blast
qed

section \<open>Gateway fallback\<close>

text \<open>
  Claim C6. When the call to the external model ends in a network error or a timeout, the
  adapter returns the static fallback playbook as a regular result, it has called the model
  exactly once (no retry), and the answer to the SOS submission is a success carrying the
  fallback playbook and no error.
\<close>

theorem gateway_fallback:
  assumes "model n prompt = NetworkError \<or> model n prompt = Timeout"
  shows "generate_playbook model parse fallback prompt n = (Inr fallback, Suc n)
       \<and> submit_sos model parse fallback prompt n
           = (\<lparr>success = True, response_playbook = Some fallback, error_message = None\<rparr>, Suc n)"
  using assms by (auto simp: submit_sos_def generate_playbook_def call_model_def)

theorem gateway_fallback_witness:
  "generate_playbook (\<lambda>n p. if n = 0 then Timeout else ModelResponse p)
      (\<lambda>txt. \<lparr>title = ''Plan'', summary = txt, immediate_actions = [], recovery_steps = [],
               alternatives = [], tips = []\<rparr>)
      \<lparr>title = ''Teaching Rescue Playbook'', summary = ''Try a quick activity'',
       immediate_actions = [''Pause''], recovery_steps = [], alternatives = [], tips = []\<rparr>
      ''Students don't understand fractions'' 0
   = (Inr \<lparr>title = ''Teaching Rescue Playbook'', summary = ''Try a quick activity'',
           immediate_actions = [''Pause''], recovery_steps = [], alternatives = [], tips = []\<rparr>,
      Suc 0)"
  using gateway_fallback
          [of "\<lambda>n p. if n = 0 then Timeout else ModelResponse p" 0
              "''Students don't understand fractions''"
              "\<lambda>txt. \<lparr>title = ''Plan'', summary = txt, immediate_actions = [],
                       recovery_steps = [], alternatives = [], tips = []\<rparr>"
              "\<lparr>title = ''Teaching Rescue Playbook'', summary = ''Try a quick activity'',
                immediate_actions = [''Pause''], recovery_steps = [], alternatives = [],
                tips = []\<rparr>"]
  by simp

end
